theory Spec2Isabelle
  imports Complex_Main "HOL-Library.AList"
begin

section \<open>The webview's message router: \<^verbatim>\<open>ui/connector.ts\<close>\<close>

text \<open>
  The class \<^verbatim>\<open>Connector\<close> forwards the events of the chat panel to one of four
  sub-connectors, chosen by the type of the tab the event belongs to, and forwards the
  messages of the host extension by their \<^verbatim>\<open>sender\<close> field. The sub-connectors, the tab
  storage and the window are collaborators: a call to one of them is recorded in the
  order in which the class makes it, with its arguments, and nothing is said of what the
  collaborator does with it.
\<close>

subsection \<open>JavaScript values\<close>

text \<open>
  Objects the class only passes on (a chat payload, a follow-up, a feedback payload,
  a parsed host message) are JavaScript values. An object is the list of its own
  properties. Numbers are the finite ones.
\<close>

datatype js_value =
    Undefined
  | Null
  | Bool bool
  | Number real
  | String string
  | Array "js_value list"
  | Object "(string \<times> js_value) list"

datatype error = SyntaxError | TypeError

text \<open>
  Reading a property, \<^verbatim>\<open>v.name\<close>: a TypeError on \<^verbatim>\<open>undefined\<close> and \<^verbatim>\<open>null\<close>, the
  property of an object, and \<^verbatim>\<open>undefined\<close> where the value has no such property.
\<close>

fun get_property :: "js_value \<Rightarrow> string \<Rightarrow> error + js_value" where
  "get_property Undefined name = Inl TypeError"
| "get_property Null name = Inl TypeError"
| "get_property (Object fields) name =
     Inr (case map_of fields name of None \<Rightarrow> Undefined | Some v \<Rightarrow> v)"
| "get_property v name = Inr Undefined"

subsection \<open>Tabs and the tab storage\<close>

text \<open>
  The tab types the class switches on; \<^verbatim>\<open>getTab(tabID)?.type\<close> is \<^verbatim>\<open>undefined\<close> for a
  tab the storage does not hold, which is \<open>None\<close> below.
\<close>

datatype tab_type = cwc | featuredev | codetransform | unknown

text \<open>
  Modelled from the spec: the type of the status of a tab is declared in
  \<^verbatim>\<open>storages/tabsStorage.ts\<close>, which is not among the sources. The class writes
  \<^verbatim>\<open>'free'\<close>; the specification has free and busy.
\<close>

datatype tab_status = free | busy

text \<open>
  A tab has the four properties \<^verbatim>\<open>onTabAdd\<close> writes (\<^verbatim>\<open>id\<close>, \<^verbatim>\<open>type\<close>, \<^verbatim>\<open>status\<close>,
  \<^verbatim>\<open>isSelected\<close>) and the optional \<^verbatim>\<open>openInteractionType\<close> that \<^verbatim>\<open>onUpdateTabType\<close>
  reads.
\<close>

record tab =
  tab_id :: string
  tab_type :: tab_type
  status :: tab_status
  isSelected :: bool
  openInteractionType :: "string option"

fun tab_type_name :: "tab_type \<Rightarrow> string" where
  "tab_type_name cwc = ''cwc''"
| "tab_type_name featuredev = ''featuredev''"
| "tab_type_name codetransform = ''codetransform''"
| "tab_type_name unknown = ''unknown''"

text \<open>
  Modelled from the spec: the class \<^verbatim>\<open>TabsStorage\<close> of \<^verbatim>\<open>storages/tabsStorage.ts\<close> is
  not among the sources. The registry is a mapping from tab identifier to tab with
  unique keys that keeps the order of insertion: an association list.
\<close>

type_synonym tabs_storage = "(string \<times> tab) list"

text \<open>Modelled from the spec: \<^verbatim>\<open>TabsStorage.getTab\<close>, the lookup by identifier.\<close>

definition getTab :: "tabs_storage \<Rightarrow> string \<Rightarrow> tab option" where
  "getTab tabs tabID = map_of tabs tabID"

text \<open>
  Modelled from the spec: \<^verbatim>\<open>TabsStorage.addTab\<close> inserts the tab; when the identifier
  is already there the entry is overwritten.
\<close>

definition addTab :: "tabs_storage \<Rightarrow> tab \<Rightarrow> tabs_storage" where
  "addTab tabs t = AList.update (tab_id t) t tabs"

text \<open>
  Modelled from the spec: \<^verbatim>\<open>TabsStorage.deleteTab\<close> deletes the entry; nothing changes
  when the identifier is absent.
\<close>

definition deleteTab :: "tabs_storage \<Rightarrow> string \<Rightarrow> tabs_storage" where
  "deleteTab tabs tabID = AList.delete tabID tabs"

text \<open>
  Modelled from the spec: the registry keeps no pointer to the selection, only the flag
  of each tab. The previous selection is the first tab of the registry that is marked
  selected, if there is one.
\<close>

definition selectedTabID :: "tabs_storage \<Rightarrow> string option" where
  "selectedTabID tabs = map_option fst (find (\<lambda>(k, t). isSelected t) tabs)"

text \<open>
  Modelled from the spec: \<^verbatim>\<open>TabsStorage.setSelectedTab\<close> marks the identifier selected,
  unmarks the previously selected tab if it is another one, and returns the identifier
  of the previous selection, or none. On an identifier the registry does not hold
  nothing changes.
\<close>

definition setSelectedTab :: "tabs_storage \<Rightarrow> string \<Rightarrow> string option \<times> tabs_storage" where
  "setSelectedTab tabs tabID =
     (let prev = selectedTabID tabs in
      case getTab tabs tabID of
        None \<Rightarrow> (prev, tabs)
      | Some new \<Rightarrow>
          (prev,
           map (\<lambda>(k, t).
                  if k = tabID then (k, t\<lparr>isSelected := True\<rparr>)
                  else if Some k = prev then (k, t\<lparr>isSelected := False\<rparr>)
                  else (k, t)) tabs))"

subsection \<open>The connector and what it does to its collaborators\<close>

datatype sub_connector =
    cwChatConnector
  | featureDevChatConnector
  | codeTransformChatConnector
  | amazonqCommonsConnector

text \<open>
  What the class does that others can see: a method call on a sub-connector (the
  method's name and the arguments, in order), a message handed to
  \<^verbatim>\<open>sendMessageToExtension\<close>, a listener added to the window (the event and the method
  that listens).
\<close>

datatype effect =
    Call sub_connector string "js_value list"
  | SendMessageToExtension js_value
  | AddEventListener string string

text \<open>
  A pending \<^verbatim>\<open>setTimeout\<close>. The only callback the class schedules is
  \<^verbatim>\<open>() => this.requestGenerativeAIAnswer(tabID, payload)\<close>, so a timeout is its delay in
  milliseconds and the two arguments of that call.
\<close>

record timeout =
  delay :: nat
  timeout_tabID :: string
  timeout_payload :: js_value

datatype promise = Pending | Fulfilled js_value | Rejected error

text \<open>
  The state of a connector: the shared tab storage, the flag \<^verbatim>\<open>isUIReady\<close>, whether
  \<^verbatim>\<open>props.onMessageReceived\<close> was given, the effects so far (oldest first), the pending
  timeouts in the order they were scheduled, and the promises made by
  \<^verbatim>\<open>new Promise\<close>, each at the index it was made.
\<close>

record connector =
  tabsStorage :: tabs_storage
  isUIReady :: bool
  onMessageReceived :: bool
  effects :: "effect list"
  timeouts :: "timeout list"
  promises :: "promise list"

definition emit :: "connector \<Rightarrow> effect \<Rightarrow> connector" where
  "emit c e = c\<lparr>effects := effects c @ [e]\<rparr>"

definition invoke :: "connector \<Rightarrow> sub_connector \<Rightarrow> string \<Rightarrow> js_value list \<Rightarrow> connector" where
  "invoke c target method args = emit c (Call target method args)"

text \<open>The scrutinee of every switch: \<^verbatim>\<open>this.tabsStorage.getTab(tabID)?.type\<close>.\<close>

definition tabTypeOf :: "connector \<Rightarrow> string \<Rightarrow> tab_type option" where
  "tabTypeOf c tabID = map_option tab_type (getTab (tabsStorage c) tabID)"

subsection \<open>The methods of the class, in the order of the source\<close>

definition onSourceLinkClick :: "connector \<Rightarrow> string \<Rightarrow> string \<Rightarrow> string \<Rightarrow> connector" where
  "onSourceLinkClick c tabID messageId link =
     (case tabTypeOf c tabID of
        Some cwc \<Rightarrow>
          invoke c cwChatConnector ''onSourceLinkClick'' [String tabID, String messageId, String link]
      | _ \<Rightarrow> c)"

definition onResponseBodyLinkClick :: "connector \<Rightarrow> string \<Rightarrow> string \<Rightarrow> string \<Rightarrow> connector" where
  "onResponseBodyLinkClick c tabID messageId link =
     (case tabTypeOf c tabID of
        Some cwc \<Rightarrow>
          invoke c cwChatConnector ''onResponseBodyLinkClick''
            [String tabID, String messageId, String link]
      | Some featuredev \<Rightarrow>
          invoke c featureDevChatConnector ''onResponseBodyLinkClick''
            [String tabID, String messageId, String link]
      | Some codetransform \<Rightarrow>
          invoke c codeTransformChatConnector ''onResponseBodyLinkClick''
            [String tabID, String messageId, String link]
      | _ \<Rightarrow> c)"

definition onInfoLinkClick :: "connector \<Rightarrow> string \<Rightarrow> string \<Rightarrow> connector" where
  "onInfoLinkClick c tabID link =
     (case tabTypeOf c tabID of
        _ \<Rightarrow> invoke c cwChatConnector ''onInfoLinkClick'' [String tabID, String link])"

text \<open>
  \<^verbatim>\<open>requestAnswer\<close> returns what the code-transform connector returns, and
  \<^verbatim>\<open>undefined\<close> for every other tab: the first component is the call whose value is
  returned, if any.
\<close>

definition requestAnswer :: "connector \<Rightarrow> string \<Rightarrow> js_value \<Rightarrow> effect option \<times> connector" where
  "requestAnswer c tabID payload =
     (case tabTypeOf c tabID of
        Some codetransform \<Rightarrow>
          (Some (Call codeTransformChatConnector ''requestAnswer'' [String tabID, payload]),
           invoke c codeTransformChatConnector ''requestAnswer'' [String tabID, payload])
      | _ \<Rightarrow> (None, c))"

text \<open>
  \<^verbatim>\<open>new Promise(executor)\<close>: the promise is made pending and the executor runs at once.
  The executor of \<^verbatim>\<open>requestGenerativeAIAnswer\<close> names \<^verbatim>\<open>resolve\<close> and \<^verbatim>\<open>reject\<close> as
  its parameters and uses neither, nor does the callback it schedules, so no step of
  the model writes to the promise. The result is the index of the promise.
\<close>

definition requestGenerativeAIAnswer :: "connector \<Rightarrow> string \<Rightarrow> js_value \<Rightarrow> nat \<times> connector" where
  "requestGenerativeAIAnswer c tabID payload =
     (let p = length (promises c);
          c1 = c\<lparr>promises := promises c @ [Pending]\<rparr>
      in if isUIReady c1 then
           (case tabTypeOf c1 tabID of
              Some featuredev \<Rightarrow>
                (p, invoke c1 featureDevChatConnector ''requestGenerativeAIAnswer''
                      [String tabID, payload])
            | _ \<Rightarrow>
                (p, invoke c1 cwChatConnector ''requestGenerativeAIAnswer''
                      [String tabID, payload]))
         else
           (p, c1\<lparr>timeouts := timeouts c1 @
                  [\<lparr>delay = 2000, timeout_tabID = tabID, timeout_payload = payload\<rparr>]\<rparr>))"


definition clearChat :: "connector \<Rightarrow> string \<Rightarrow> connector" where
  "clearChat c tabID =
     (case tabTypeOf c tabID of
        Some cwc \<Rightarrow> invoke c cwChatConnector ''clearChat'' [String tabID]
      | _ \<Rightarrow> c)"

definition help_tab :: "connector \<Rightarrow> string \<Rightarrow> connector" where
  "help_tab c tabID =
     (case tabTypeOf c tabID of
        Some cwc \<Rightarrow> invoke c cwChatConnector ''help'' [String tabID]
      | _ \<Rightarrow> c)"

definition transform :: "connector \<Rightarrow> string \<Rightarrow> connector" where
  "transform c tabID =
     (case tabTypeOf c tabID of
        _ \<Rightarrow> invoke c codeTransformChatConnector ''transform'' [String tabID])"

text \<open>
  \<^verbatim>\<open>handleMessageReceive\<close> is an async function with no \<^verbatim>\<open>await\<close>: its promise is
  settled when the body ends, fulfilled with \<^verbatim>\<open>undefined\<close> on a return and rejected
  with the error on a throw. The body has no \<^verbatim>\<open>try\<close>. \<^verbatim>\<open>JSON.parse\<close> is the built-in
  of the language, taken as a parameter: \<open>Inl SyntaxError\<close> where it throws.
\<close>

definition handleMessageReceive ::
  "(js_value \<Rightarrow> error + js_value) \<Rightarrow> connector \<Rightarrow> js_value \<Rightarrow> promise \<times> connector" where
  "handleMessageReceive JSON_parse c data =
     (if data = Undefined then (Fulfilled Undefined, c)
      else
        (case JSON_parse data of
           Inl e \<Rightarrow> (Rejected e, c)
         | Inr messageData \<Rightarrow>
             (if messageData = Undefined then (Fulfilled Undefined, c)
              else
                (case get_property messageData ''sender'' of
                   Inl e \<Rightarrow> (Rejected e, c)
                 | Inr sender \<Rightarrow>
                     (if sender = String ''CWChat'' then
                        (Fulfilled Undefined,
                         invoke c cwChatConnector ''handleMessageReceive'' [messageData])
                      else if sender = String ''featureDevChat'' then
                        (Fulfilled Undefined,
                         invoke c featureDevChatConnector ''handleMessageReceive'' [messageData])
                      else if sender = String ''codetransform'' then
                        (Fulfilled Undefined,
                         invoke c codeTransformChatConnector ''handleMessageReceive''
                           [messageData])
                      else (Fulfilled Undefined, c))))))"

definition onTabAdd :: "connector \<Rightarrow> string \<Rightarrow> connector" where
  "onTabAdd c tabID =
     c\<lparr>tabsStorage :=
         addTab (tabsStorage c)
           \<lparr>tab_id = tabID, tab_type = unknown, status = free, isSelected = True,
            openInteractionType = None\<rparr>\<rparr>"

definition onUpdateTabType :: "connector \<Rightarrow> string \<Rightarrow> connector" where
  "onUpdateTabType c tabID =
     (let t = getTab (tabsStorage c) tabID in
      case map_option tab_type t of
        Some cwc \<Rightarrow>
          invoke c cwChatConnector ''onTabAdd''
            [String tabID,
             case Option.bind t openInteractionType of None \<Rightarrow> Undefined | Some v \<Rightarrow> String v]
      | _ \<Rightarrow> c)"

definition onKnownTabOpen :: "connector \<Rightarrow> string \<Rightarrow> connector" where
  "onKnownTabOpen c tabID =
     (case tabTypeOf c tabID of
        Some featuredev \<Rightarrow> invoke c featureDevChatConnector ''onTabOpen'' [String tabID]
      | Some codetransform \<Rightarrow> invoke c codeTransformChatConnector ''onTabOpen'' [String tabID]
      | _ \<Rightarrow> c)"

definition onTabChange :: "connector \<Rightarrow> string \<Rightarrow> connector" where
  "onTabChange c tabId =
     (let (prevTabID, tabs) = setSelectedTab (tabsStorage c) tabId in
      invoke (c\<lparr>tabsStorage := tabs\<rparr>) cwChatConnector ''onTabChange''
        [String tabId, case prevTabID of None \<Rightarrow> Undefined | Some p \<Rightarrow> String p])"

text \<open>
  The two code-block events take the same ten arguments; the optional ones are
  \<^verbatim>\<open>undefined\<close> when left out. The feature-dev connector is given four of them.
\<close>

definition onCodeInsertToCursorPosition ::
  "connector \<Rightarrow> string \<Rightarrow> string \<Rightarrow> js_value \<Rightarrow> js_value \<Rightarrow> js_value \<Rightarrow> js_value \<Rightarrow>
     js_value \<Rightarrow> js_value \<Rightarrow> js_value \<Rightarrow> js_value \<Rightarrow> connector" where
  "onCodeInsertToCursorPosition c tabID messageId code type codeReference eventId
       codeBlockIndex totalCodeBlocks userIntent codeBlockLanguage =
     (case tabTypeOf c tabID of
        Some cwc \<Rightarrow>
          invoke c cwChatConnector ''onCodeInsertToCursorPosition''
            [String tabID, String messageId, code, type, codeReference, eventId,
             codeBlockIndex, totalCodeBlocks, userIntent, codeBlockLanguage]
      | Some featuredev \<Rightarrow>
          invoke c featureDevChatConnector ''onCodeInsertToCursorPosition''
            [String tabID, code, type, codeReference]
      | _ \<Rightarrow> c)"

definition onCopyCodeToClipboard ::
  "connector \<Rightarrow> string \<Rightarrow> string \<Rightarrow> js_value \<Rightarrow> js_value \<Rightarrow> js_value \<Rightarrow> js_value \<Rightarrow>
     js_value \<Rightarrow> js_value \<Rightarrow> js_value \<Rightarrow> js_value \<Rightarrow> connector" where
  "onCopyCodeToClipboard c tabID messageId code type codeReference eventId
       codeBlockIndex totalCodeBlocks userIntent codeBlockLanguage =
     (case tabTypeOf c tabID of
        Some cwc \<Rightarrow>
          invoke c cwChatConnector ''onCopyCodeToClipboard''
            [String tabID, String messageId, code, type, codeReference, eventId,
             codeBlockIndex, totalCodeBlocks, userIntent, codeBlockLanguage]
      | Some featuredev \<Rightarrow>
          invoke c featureDevChatConnector ''onCopyCodeToClipboard''
            [String tabID, code, type, codeReference]
      | _ \<Rightarrow> c)"

text \<open>
  \<^verbatim>\<open>onTabRemove\<close> reads the tab, deletes it, and then switches on the type it read.
\<close>

definition onTabRemove :: "connector \<Rightarrow> string \<Rightarrow> connector" where
  "onTabRemove c tabID =
     (let t = getTab (tabsStorage c) tabID;
          c1 = c\<lparr>tabsStorage := deleteTab (tabsStorage c) tabID\<rparr>
      in case map_option tab_type t of
           Some cwc \<Rightarrow> invoke c1 cwChatConnector ''onTabRemove'' [String tabID]
         | Some featuredev \<Rightarrow> invoke c1 featureDevChatConnector ''onTabRemove'' [String tabID]
         | Some codetransform \<Rightarrow>
             invoke c1 codeTransformChatConnector ''onTabRemove'' [String tabID]
         | _ \<Rightarrow> c1)"




definition onAuthFollowUpClicked :: "connector \<Rightarrow> string \<Rightarrow> js_value \<Rightarrow> connector" where
  "onAuthFollowUpClicked c tabID authType =
     (let tabType = tabTypeOf c tabID in
      case tabType of
        Some codetransform \<Rightarrow>
          invoke c amazonqCommonsConnector ''authFollowUpClicked''
            [String tabID, String (tab_type_name codetransform), authType]
      | Some cwc \<Rightarrow>
          invoke c amazonqCommonsConnector ''authFollowUpClicked''
            [String tabID, String (tab_type_name cwc), authType]
      | Some featuredev \<Rightarrow>
          invoke c amazonqCommonsConnector ''authFollowUpClicked''
            [String tabID, String (tab_type_name featuredev), authType]
      | _ \<Rightarrow> c)"

definition onFollowUpClicked :: "connector \<Rightarrow> string \<Rightarrow> string \<Rightarrow> js_value \<Rightarrow> connector" where
  "onFollowUpClicked c tabID messageId followUp =
     (case tabTypeOf c tabID of
        Some unknown \<Rightarrow>
          invoke c amazonqCommonsConnector ''followUpClicked'' [String tabID, followUp]
      | Some featuredev \<Rightarrow>
          invoke c featureDevChatConnector ''followUpClicked'' [String tabID, followUp]
      | Some codetransform \<Rightarrow>
          invoke c codeTransformChatConnector ''followUpClicked'' [String tabID, followUp]
      | _ \<Rightarrow>
          invoke c cwChatConnector ''followUpClicked'' [String tabID, String messageId, followUp])"

definition onFileActionClick ::
  "connector \<Rightarrow> string \<Rightarrow> string \<Rightarrow> string \<Rightarrow> string \<Rightarrow> connector" where
  "onFileActionClick c tabID messageId filePath actionName =
     (case tabTypeOf c tabID of
        Some featuredev \<Rightarrow>
          invoke c featureDevChatConnector ''onFileActionClick''
            [String tabID, String messageId, String filePath, String actionName]
      | _ \<Rightarrow> c)"

definition onOpenDiff :: "connector \<Rightarrow> string \<Rightarrow> string \<Rightarrow> bool \<Rightarrow> connector" where
  "onOpenDiff c tabID filePath deleted =
     (case tabTypeOf c tabID of
        Some featuredev \<Rightarrow>
          invoke c featureDevChatConnector ''onOpenDiff''
            [String tabID, String filePath, Bool deleted]
      | _ \<Rightarrow> c)"

definition onStopChatResponse :: "connector \<Rightarrow> string \<Rightarrow> connector" where
  "onStopChatResponse c tabID =
     (case tabTypeOf c tabID of
        Some featuredev \<Rightarrow> invoke c featureDevChatConnector ''onStopChatResponse'' [String tabID]
      | Some cwc \<Rightarrow> invoke c cwChatConnector ''onStopChatResponse'' [String tabID]
      | _ \<Rightarrow> c)"

definition sendFeedback :: "connector \<Rightarrow> string \<Rightarrow> js_value \<Rightarrow> connector" where
  "sendFeedback c tabId feedbackPayload =
     (case tabTypeOf c tabId of
        Some featuredev \<Rightarrow>
          invoke c featureDevChatConnector ''sendFeedback'' [String tabId, feedbackPayload]
      | Some cwc \<Rightarrow> invoke c cwChatConnector ''onSendFeedback'' [String tabId, feedbackPayload]
      | _ \<Rightarrow> c)"

text \<open>The vote is \<^verbatim>\<open>'upvote'\<close> or \<^verbatim>\<open>'downvote'\<close>.\<close>

datatype vote = upvote | downvote

fun vote_name :: "vote \<Rightarrow> string" where
  "vote_name upvote = ''upvote''"
| "vote_name downvote = ''downvote''"

definition onChatItemVoted :: "connector \<Rightarrow> string \<Rightarrow> string \<Rightarrow> vote \<Rightarrow> connector" where
  "onChatItemVoted c tabId messageId v =
     (case tabTypeOf c tabId of
        Some cwc \<Rightarrow>
          invoke c cwChatConnector ''onChatItemVoted''
            [String tabId, String messageId, String (vote_name v)]
      | Some featuredev \<Rightarrow>
          invoke c featureDevChatConnector ''onChatItemVoted''
            [String tabId, String messageId, String (vote_name v)]
      | _ \<Rightarrow> c)"

text \<open>
  \<^verbatim>\<open>onFormButtonClick\<close>: the action is an object, given by its properties, whose
  \<^verbatim>\<open>id\<close> is a string. \<^verbatim>\<open>isFormButtonCodeTransform\<close> is imported from
  \<^verbatim>\<open>forms/constants\<close>, which is not among the sources: it is a parameter, a predicate
  on the identifier.
\<close>

definition action_id :: "(string \<times> js_value) list \<Rightarrow> js_value" where
  "action_id action = (case map_of action ''id'' of None \<Rightarrow> Undefined | Some v \<Rightarrow> v)"

definition onFormButtonClick ::
  "(js_value \<Rightarrow> bool) \<Rightarrow> connector \<Rightarrow> string \<Rightarrow> string \<Rightarrow> (string \<times> js_value) list \<Rightarrow> connector" where
  "onFormButtonClick isFormButtonCodeTransform c tabId messageId action =
     (let c1 = (if isFormButtonCodeTransform (action_id action)
                then invoke c codeTransformChatConnector ''onFormButtonClick''
                       [String tabId, Object action]
                else c)
      in case tabTypeOf c1 tabId of
           Some cwc \<Rightarrow>
             (if action_id action = String ''open-settings''
              then emit c1 (SendMessageToExtension
                     (Object [(''command'', String ''open-settings''), (''type'', String []),
                              (''tabType'', String ''cwc'')]))
              else c1)
         | _ \<Rightarrow> c1)"

text \<open>
  The constructor: \<^verbatim>\<open>isUIReady\<close> starts false, the tab storage is the one of the
  properties, and nothing has been done yet.
\<close>

definition new_Connector :: "tabs_storage \<Rightarrow> bool \<Rightarrow> connector" where
  "new_Connector tabs has_onMessageReceived =
     \<lparr>tabsStorage = tabs, isUIReady = False, onMessageReceived = has_onMessageReceived,
      effects = [], timeouts = [], promises = []\<rparr>"

subsection \<open>Runs of the connector\<close>









section \<open>Properties\<close>

subsection \<open>The tab storage\<close>

lemma getTab_addTab:
  "getTab (addTab tabs t) k = (if k = tab_id t then Some t else getTab tabs k)"
  by (simp add: getTab_def addTab_def update_conv')


lemma deleteTab_absent: "getTab tabs t = None \<Longrightarrow> deleteTab tabs t = tabs"
  by (simp add: getTab_def deleteTab_def map_of_eq_None_iff)

subsection \<open>Adding and removing a tab\<close>

text \<open>
  C6. \<^verbatim>\<open>onTabAdd\<close> hands the storage a tab of type \<^verbatim>\<open>'unknown'\<close>, status \<^verbatim>\<open>'free'\<close>
  and \<^verbatim>\<open>isSelected: true\<close> under the given identifier, for every identifier; after the
  call the storage holds exactly that tab under the identifier, and no sub-connector
  has been called.
\<close>

theorem onTabAdd_inserts:
  "onTabAdd c tabID =
     c\<lparr>tabsStorage := addTab (tabsStorage c)
          \<lparr>tab_id = tabID, tab_type = unknown, status = free, isSelected = True,
           openInteractionType = None\<rparr>\<rparr>
   \<and> getTab (tabsStorage (onTabAdd c tabID)) tabID =
       Some \<lparr>tab_id = tabID, tab_type = unknown, status = free, isSelected = True,
             openInteractionType = None\<rparr>
   \<and> tabTypeOf (onTabAdd c tabID) tabID = Some unknown
   \<and> effects (onTabAdd c tabID) = effects c"
  by (simp add: onTabAdd_def getTab_addTab tabTypeOf_def)



subsection \<open>Routing by the type of the tab\<close>

text \<open>
  C3. \<^verbatim>\<open>onFollowUpClicked\<close> makes exactly one call, chosen by the type of the tab: the
  commons connector for \<^verbatim>\<open>'unknown'\<close>, the feature-dev connector for \<^verbatim>\<open>'featuredev'\<close>, the
  code-transform connector for \<^verbatim>\<open>'codetransform'\<close>, and in every other case (the type
  \<^verbatim>\<open>'cwc'\<close>, or no tab under the identifier) the chat connector, which alone is also
  given the message identifier.
\<close>

theorem onFollowUpClicked_routes:
  "onFollowUpClicked c tabID messageId followUp =
     emit c
       (if tabTypeOf c tabID = Some unknown then
          Call amazonqCommonsConnector ''followUpClicked'' [String tabID, followUp]
        else if tabTypeOf c tabID = Some featuredev then
          Call featureDevChatConnector ''followUpClicked'' [String tabID, followUp]
        else if tabTypeOf c tabID = Some codetransform then
          Call codeTransformChatConnector ''followUpClicked'' [String tabID, followUp]
        else Call cwChatConnector ''followUpClicked'' [String tabID, String messageId, followUp])"
  by (simp add: onFollowUpClicked_def invoke_def split: option.split tab_type.split)

text \<open>
  The scenario of the specification: a tab just added is of type \<^verbatim>\<open>'unknown'\<close>, and a
  follow-up on it goes to the commons connector; once its type is \<^verbatim>\<open>'featuredev'\<close> the
  same follow-up goes to the feature-dev connector; on an identifier never added it
  goes to the chat connector.
\<close>

theorem onFollowUpClicked_routes_witness:
  "effects (onFollowUpClicked (onTabAdd (new_Connector [] True) ''t1'') ''t1'' ''m1'' Null) =
     [Call amazonqCommonsConnector ''followUpClicked'' [String ''t1'', Null]]
   \<and> effects (onFollowUpClicked
        (new_Connector
           [(''t1'', \<lparr>tab_id = ''t1'', tab_type = featuredev, status = free, isSelected = True,
                      openInteractionType = None\<rparr>)] True) ''t1'' ''m1'' Null) =
     [Call featureDevChatConnector ''followUpClicked'' [String ''t1'', Null]]
   \<and> effects (onFollowUpClicked (new_Connector [] True) ''t1'' ''m1'' Null) =
     [Call cwChatConnector ''followUpClicked'' [String ''t1'', String ''m1'', Null]]"
  using onFollowUpClicked_routes [of "onTabAdd (new_Connector [] True) ''t1''" "''t1''" "''m1''" Null]
    onFollowUpClicked_routes
      [of "new_Connector
           [(''t1'', \<lparr>tab_id = ''t1'', tab_type = featuredev, status = free, isSelected = True,
                      openInteractionType = None\<rparr>)] True" "''t1''" "''m1''" Null]
    onFollowUpClicked_routes [of "new_Connector [] True" "''t1''" "''m1''" Null]
  by (simp add: new_Connector_def onTabAdd_def addTab_def tabTypeOf_def getTab_def emit_def)



subsection \<open>A tab that was never added\<close>

lemma setSelectedTab_absent:
  "getTab tabs t = None \<Longrightarrow> setSelectedTab tabs t = (selectedTabID tabs, tabs)"
  by (simp add: setSelectedTab_def)


text \<open>
  C2, as the code has it. For an identifier the storage does not hold, no method
  raises (none has a statement that can: the one property read is guarded by
  \<^verbatim>\<open>?.\<close>), and no method sends a message to the extension. The methods whose switch
  names its cases leave the connector as it was. The others still call a sub-connector:
  \<^verbatim>\<open>onInfoLinkClick\<close>, \<^verbatim>\<open>onFollowUpClicked\<close> and, once the UI is ready,
  \<^verbatim>\<open>requestGenerativeAIAnswer\<close> call the chat connector through their default case,
  \<^verbatim>\<open>transform\<close> calls the code-transform connector, \<^verbatim>\<open>onTabChange\<close> tells the chat
  connector of the change, and \<^verbatim>\<open>onFormButtonClick\<close> calls the code-transform connector
  when the action is one of its form buttons.
\<close>

theorem unknown_tab_dispatch:
  assumes "getTab (tabsStorage c) tabID = None"
  shows "onSourceLinkClick c tabID messageId link = c
       \<and> onResponseBodyLinkClick c tabID messageId link = c
       \<and> requestAnswer c tabID payload = (None, c)
       \<and> clearChat c tabID = c
       \<and> help_tab c tabID = c
       \<and> onUpdateTabType c tabID = c
       \<and> onKnownTabOpen c tabID = c
       \<and> onCodeInsertToCursorPosition c tabID messageId a1 a2 a3 a4 a5 a6 a7 a8 = c
       \<and> onCopyCodeToClipboard c tabID messageId a1 a2 a3 a4 a5 a6 a7 a8 = c
       \<and> onTabRemove c tabID = c
       \<and> onAuthFollowUpClicked c tabID authType = c
       \<and> onFileActionClick c tabID messageId filePath actionName = c
       \<and> onOpenDiff c tabID filePath deleted = c
       \<and> onStopChatResponse c tabID = c
       \<and> sendFeedback c tabID feedbackPayload = c
       \<and> onChatItemVoted c tabID messageId v = c
       \<and> onInfoLinkClick c tabID link =
           emit c (Call cwChatConnector ''onInfoLinkClick'' [String tabID, String link])
       \<and> transform c tabID = emit c (Call codeTransformChatConnector ''transform'' [String tabID])
       \<and> onFollowUpClicked c tabID messageId followUp =
           emit c (Call cwChatConnector ''followUpClicked''
                     [String tabID, String messageId, followUp])
       \<and> effects (snd (requestGenerativeAIAnswer c tabID payload)) =
           effects c @
           (if isUIReady c
            then [Call cwChatConnector ''requestGenerativeAIAnswer'' [String tabID, payload]]
            else [])
       \<and> onTabChange c tabID =
           emit c (Call cwChatConnector ''onTabChange''
                     [String tabID,
                      case selectedTabID (tabsStorage c) of
                        None \<Rightarrow> Undefined | Some p \<Rightarrow> String p])
       \<and> onFormButtonClick isFormButtonCodeTransform c tabID messageId action =
           (if isFormButtonCodeTransform (action_id action)
            then emit c (Call codeTransformChatConnector ''onFormButtonClick''
                           [String tabID, Object action])
            else c)"
proof -
  have ty: "tabTypeOf c tabID = None"
    using assms by (simp add: tabTypeOf_def)
  have ty': "tabTypeOf (emit c e) tabID = None" for e
    using assms by (simp add: tabTypeOf_def emit_def)
  have 1: "onSourceLinkClick c tabID messageId link = c"
    "onResponseBodyLinkClick c tabID messageId link = c"
    "requestAnswer c tabID payload = (None, c)"
    "clearChat c tabID = c" "help_tab c tabID = c" "onKnownTabOpen c tabID = c"
    by (simp_all add: ty onSourceLinkClick_def onResponseBodyLinkClick_def requestAnswer_def
          clearChat_def help_tab_def onKnownTabOpen_def)
  have 2: "onUpdateTabType c tabID = c" "onTabRemove c tabID = c"
    using assms by (simp_all add: onUpdateTabType_def onTabRemove_def deleteTab_absent)
  have 3: "onCodeInsertToCursorPosition c tabID messageId a1 a2 a3 a4 a5 a6 a7 a8 = c"
    "onCopyCodeToClipboard c tabID messageId a1 a2 a3 a4 a5 a6 a7 a8 = c"
    "onAuthFollowUpClicked c tabID authType = c"
    "onFileActionClick c tabID messageId filePath actionName = c"
    "onOpenDiff c tabID filePath deleted = c"
    "onStopChatResponse c tabID = c"
    "sendFeedback c tabID feedbackPayload = c"
    "onChatItemVoted c tabID messageId v = c"
    by (simp_all add: ty onCodeInsertToCursorPosition_def onCopyCodeToClipboard_def
          onAuthFollowUpClicked_def onFileActionClick_def onOpenDiff_def
          onStopChatResponse_def sendFeedback_def onChatItemVoted_def)
  have 4: "onInfoLinkClick c tabID link =
           emit c (Call cwChatConnector ''onInfoLinkClick'' [String tabID, String link])"
    "transform c tabID = emit c (Call codeTransformChatConnector ''transform'' [String tabID])"
    "onFollowUpClicked c tabID messageId followUp =
           emit c (Call cwChatConnector ''followUpClicked''
                     [String tabID, String messageId, followUp])"
    by (simp_all add: ty onInfoLinkClick_def transform_def onFollowUpClicked_def invoke_def)
  have 5: "effects (snd (requestGenerativeAIAnswer c tabID payload)) =
           effects c @
           (if isUIReady c
            then [Call cwChatConnector ''requestGenerativeAIAnswer'' [String tabID, payload]]
            else [])"
    using assms
    by (simp add: requestGenerativeAIAnswer_def tabTypeOf_def invoke_def emit_def Let_def)
  have 6: "onTabChange c tabID =
           emit c (Call cwChatConnector ''onTabChange''
                     [String tabID,
                      case selectedTabID (tabsStorage c) of
                        None \<Rightarrow> Undefined | Some p \<Rightarrow> String p])"
    using assms by (simp add: onTabChange_def setSelectedTab_absent invoke_def)
  have 7: "onFormButtonClick isFormButtonCodeTransform c tabID messageId action =
           (if isFormButtonCodeTransform (action_id action)
            then emit c (Call codeTransformChatConnector ''onFormButtonClick''
                           [String tabID, Object action])
            else c)"
    by (simp add: onFormButtonClick_def ty ty' invoke_def Let_def)
  show ?thesis
    using 1 2 3 4 5 6 7 by blast
qed


text \<open>
  The claim as stated fails on a fresh connector with an empty storage: a click on an
  info link of the tab \<^verbatim>\<open>"t1"\<close>, never added, calls the chat connector.
\<close>

theorem unknown_tab_counterexample:
  "getTab (tabsStorage (new_Connector [] True)) ''t1'' = None
   \<and> effects (new_Connector [] True) = []
   \<and> effects (onInfoLinkClick (new_Connector [] True) ''t1'' ''https://aws.amazon.com'') =
       [Call cwChatConnector ''onInfoLinkClick'' [String ''t1'', String ''https://aws.amazon.com'']]"
  by (simp add: new_Connector_def getTab_def onInfoLinkClick_def invoke_def emit_def)


theorem unknown_tab_dispatch_witness:
  "getTab (tabsStorage (new_Connector [] True)) ''t1'' = None
   \<and> onStopChatResponse (new_Connector [] True) ''t1'' = new_Connector [] True
   \<and> effects (transform (new_Connector [] True) ''t1'') =
       [Call codeTransformChatConnector ''transform'' [String ''t1'']]"
proof -
  have absent: "getTab (tabsStorage (new_Connector [] True)) ''t1'' = None"
    by (simp add: new_Connector_def getTab_def)
  show ?thesis
    using unknown_tab_dispatch [OF absent] absent
    by (simp add: emit_def new_Connector_def)
qed


subsection \<open>Messages of the host\<close>

text \<open>
  C7. When the data is not \<^verbatim>\<open>undefined\<close> and \<^verbatim>\<open>JSON.parse\<close> returns a value, at most one
  sub-connector is given that value: the chat connector when its \<^verbatim>\<open>sender\<close> is
  \<^verbatim>\<open>'CWChat'\<close>, the feature-dev connector for \<^verbatim>\<open>'featureDevChat'\<close>, the code-transform
  connector for \<^verbatim>\<open>'codetransform'\<close>, and nobody for any other sender, for a value with no
  \<^verbatim>\<open>sender\<close>, and for \<^verbatim>\<open>null\<close>, where reading the property throws.
\<close>

theorem handleMessageReceive_demultiplexes:
  assumes "data \<noteq> Undefined" and "JSON_parse data = Inr messageData"
  shows "effects (snd (handleMessageReceive JSON_parse c data)) =
           effects c @
           (if get_property messageData ''sender'' = Inr (String ''CWChat'') then
              [Call cwChatConnector ''handleMessageReceive'' [messageData]]
            else if get_property messageData ''sender'' = Inr (String ''featureDevChat'') then
              [Call featureDevChatConnector ''handleMessageReceive'' [messageData]]
            else if get_property messageData ''sender'' = Inr (String ''codetransform'') then
              [Call codeTransformChatConnector ''handleMessageReceive'' [messageData]]
            else [])"
  using assms
  by (simp add: handleMessageReceive_def invoke_def emit_def split: sum.split)


theorem handleMessageReceive_demultiplexes_witness:
  \<open>effects (snd (handleMessageReceive
      (\<lambda>d. if d = String ''{"sender":"featureDevChat"}''
           then Inr (Object [(''sender'', String ''featureDevChat'')]) else Inl SyntaxError)
      (new_Connector [] True) (String ''{"sender":"featureDevChat"}''))) =
     [Call featureDevChatConnector ''handleMessageReceive''
        [Object [(''sender'', String ''featureDevChat'')]]]\<close>
  using handleMessageReceive_demultiplexes
    [of \<open>String ''{"sender":"featureDevChat"}''\<close>
        \<open>\<lambda>d. if d = String ''{"sender":"featureDevChat"}''
           then Inr (Object [(''sender'', String ''featureDevChat'')]) else Inl SyntaxError\<close>
        \<open>Object [(''sender'', String ''featureDevChat'')]\<close> \<open>new_Connector [] True\<close>]
  by (simp add: new_Connector_def)


text \<open>
  C1, what the code does. Where \<^verbatim>\<open>JSON.parse\<close> throws, nothing catches the error: the
  body of \<^verbatim>\<open>handleMessageReceive\<close> has no \<^verbatim>\<open>try\<close>, so the promise the async function
  returns is rejected with the error of the parser; no sub-connector is called and
  nothing is logged.
\<close>

theorem handleMessageReceive_rejects_on_parse_error:
  assumes "data \<noteq> Undefined" and "JSON_parse data = Inl e"
  shows "handleMessageReceive JSON_parse c data = (Rejected e, c)"
  using assms by (simp add: handleMessageReceive_def)


theorem handleMessageReceive_rejects_on_parse_error_witness:
  \<open>handleMessageReceive
      (\<lambda>d. if d = String ''{"sender":"featureDevChat"}''
           then Inr (Object [(''sender'', String ''featureDevChat'')]) else Inl SyntaxError)
      (new_Connector [] True) (String ''{'') = (Rejected SyntaxError, new_Connector [] True)\<close>
  using handleMessageReceive_rejects_on_parse_error
    [of \<open>String ''{''\<close>
        \<open>\<lambda>d. if d = String ''{"sender":"featureDevChat"}''
           then Inr (Object [(''sender'', String ''featureDevChat'')]) else Inl SyntaxError\<close>
        SyntaxError \<open>new_Connector [] True\<close>]
  by simp


subsection \<open>\<^verbatim>\<open>requestGenerativeAIAnswer\<close> before and after \<^verbatim>\<open>uiReady\<close>\<close>










subsection \<open>The promise of \<^verbatim>\<open>requestGenerativeAIAnswer\<close>\<close>









subsection \<open>The selected tab\<close>























end
